theory Spec2Isabelle
  imports Main "HOL-Library.AList" "HOL-Library.Sublist"
begin

section \<open>The VibeSDK command-line client: \<^verbatim>\<open>cli-tool/src/index.ts\<close>\<close>

text \<open>
  The client creates a session over a chunked HTTP response (\<^verbatim>\<open>createAgent\<close>), then
  dispatches every frame of a WebSocket channel (\<^verbatim>\<open>handleWebSocketMessage\<close>), writing
  generated files to disk (\<^verbatim>\<open>saveFile\<close>) and remembering the last deployment URL for the
  \<^verbatim>\<open>/url\<close> command.

  Conventions of the embedding.
  \<^item> JavaScript strings are \<open>string\<close>; an optional field (\<^verbatim>\<open>field?: string\<close>) and a
    nullable variable (\<^verbatim>\<open>string | null\<close>) are \<open>string option\<close>, with \<open>None\<close> for
    \<^verbatim>\<open>undefined\<close> and \<^verbatim>\<open>null\<close>.
  \<^item> The module-level variables \<^verbatim>\<open>agentId\<close>, \<^verbatim>\<open>websocketUrl\<close>, \<^verbatim>\<open>filesMap\<close>,
    \<^verbatim>\<open>lastDeploymentUrl\<close> are the fields of the record \<open>session\<close>, passed through every
    function and returned updated.
  \<^item> A thrown exception is a value of type \<open>error\<close>, returned beside the state reached
    when it was thrown.
  \<^item> Console output (colours, timestamps, the text of each log line) is not modelled.
\<close>

subsection \<open>Strings and truthiness\<close>

text \<open>\<^verbatim>\<open>s.split(c)\<close> for a one-character separator: always at least one piece.\<close>

fun split_on :: "char \<Rightarrow> string \<Rightarrow> string list" where
  "split_on c [] = [[]]"
| "split_on c (x # xs) =
     (if x = c then [] # split_on c xs
      else (case split_on c xs of [] \<Rightarrow> [[x]] | l # ls \<Rightarrow> (x # l) # ls))"

text \<open>\<^verbatim>\<open>pieces.join(c)\<close>.\<close>

fun join_with :: "char \<Rightarrow> string list \<Rightarrow> string" where
  "join_with c [] = []"
| "join_with c [s] = s"
| "join_with c (s # t # ss) = s @ c # join_with c (t # ss)"

text \<open>A string-valued expression in a boolean position: \<^verbatim>\<open>undefined\<close>, \<^verbatim>\<open>null\<close> and
  the empty string are falsy.\<close>

definition truthy :: "string option \<Rightarrow> bool" where
  "truthy v = (case v of None \<Rightarrow> False | Some s \<Rightarrow> s \<noteq> [])"

text \<open>\<^verbatim>\<open>a || b\<close> on string-valued operands.\<close>

definition js_or :: "string option \<Rightarrow> string option \<Rightarrow> string option" where
  "js_or a b = (if truthy a then a else b)"

text \<open>\<^verbatim>\<open>url || null\<close>.\<close>

definition or_null :: "string option \<Rightarrow> string option" where
  "or_null u = (if truthy u then u else None)"

subsection \<open>Node's \<^verbatim>\<open>path.join\<close> and \<^verbatim>\<open>path.dirname\<close> (POSIX)\<close>

text \<open>
  \<^verbatim>\<open>normalizeString(path, allowAboveRoot)\<close> walks the segments between slashes with the
  segments kept so far: empty segments and \<^verbatim>\<open>.\<close> are dropped, \<^verbatim>\<open>..\<close> removes the last
  kept segment unless there is none or it is itself \<^verbatim>\<open>..\<close>, in which case it is kept
  when the path is relative and dropped when it is absolute.
\<close>

fun normalizeString :: "bool \<Rightarrow> string list \<Rightarrow> string list \<Rightarrow> string list" where
  "normalizeString allowAboveRoot res [] = res"
| "normalizeString allowAboveRoot res (seg # segs) =
     (if seg = [] \<or> seg = ''.'' then normalizeString allowAboveRoot res segs
      else if seg = ''..'' then
        (if res \<noteq> [] \<and> last res \<noteq> ''..'' then normalizeString allowAboveRoot (butlast res) segs
         else if allowAboveRoot then normalizeString allowAboveRoot (res @ [''..'']) segs
         else normalizeString allowAboveRoot res segs)
      else normalizeString allowAboveRoot (res @ [seg]) segs)"

definition path_normalize :: "string \<Rightarrow> string" where
  "path_normalize path =
     (if path = [] then ''.''
      else
        let isAbsolute = (hd path = CHR ''/'');
            trailingSeparator = (last path = CHR ''/'');
            p = join_with (CHR ''/'')
                  (normalizeString (\<not> isAbsolute) [] (split_on (CHR ''/'') path))
        in if p = [] then (if isAbsolute then ''/'' else if trailingSeparator then ''./'' else ''.'')
           else (if isAbsolute then ''/'' else []) @ p @ (if trailingSeparator then ''/'' else []))"

text \<open>\<^verbatim>\<open>join(...args)\<close>: the non-empty arguments joined by a slash, then normalised.\<close>

definition path_join :: "string list \<Rightarrow> string" where
  "path_join args =
     (let parts = filter (\<lambda>a. a \<noteq> []) args
      in if parts = [] then ''.'' else path_normalize (join_with (CHR ''/'') parts))"

text \<open>
  \<^verbatim>\<open>dirname(path)\<close> scans from the end down to index 1: trailing slashes are skipped,
  then the last segment; the result is the text before the slash found, \<^verbatim>\<open>/\<close> or
  \<^verbatim>\<open>.\<close> when none is found.
\<close>

definition dirname :: "string \<Rightarrow> string" where
  "dirname path =
     (if path = [] then ''.''
      else
        let hasRoot = (hd path = CHR ''/'');
            body = dropWhile (\<lambda>c. c = CHR ''/'') (rev (tl path));
            rest = dropWhile (\<lambda>c. c \<noteq> CHR ''/'') body
        in if rest = [] then (if hasRoot then ''/'' else ''.'')
           else if hasRoot \<and> tl rest = [] then ''//''
           else hd path # rev (tl rest))"

subsection \<open>Session state and environment\<close>

datatype error = TypeError | IOError

text \<open>
  \<open>written\<close> is the disk as the program changes it: the successful \<^verbatim>\<open>writeFile\<close> calls,
  oldest first. \<open>saveFile_calls\<close> records the arguments of every invocation of
  \<^verbatim>\<open>saveFile\<close>; the program never reads it, it exists to count invocations.
  \<open>filesMap\<close> is a JavaScript \<^verbatim>\<open>Map\<close>: keys are unique and kept in insertion order,
  \<^verbatim>\<open>set\<close> replaces in place or appends, which is \<open>AList.update\<close>.
\<close>

record session =
  agentId :: "string option"
  websocketUrl :: "string option"
  filesMap :: "(string \<times> string) list"
  lastDeploymentUrl :: "string option"
  written :: "(string \<times> string) list"
  saveFile_calls :: "(string option \<times> string option) list"

definition initial_session :: session where
  "initial_session =
     \<lparr>agentId = None, websocketUrl = None, filesMap = [], lastDeploymentUrl = None,
      written = [], saveFile_calls = []\<rparr>"

text \<open>
  \<open>OUTPUT_DIR\<close> is the configuration constant (\<^verbatim>\<open>process.env.OUTPUT_DIR || './output'\<close>).
  Whether the operating system lets \<^verbatim>\<open>mkdir\<close> and \<^verbatim>\<open>writeFile\<close> succeed at a path is
  outside the program: both are parameters.
\<close>

record env =
  OUTPUT_DIR :: string
  mkdir_ok :: "string \<Rightarrow> bool"
  writeFile_ok :: "string \<Rightarrow> bool"

subsection \<open>\<^verbatim>\<open>saveFile\<close>\<close>

text \<open>
  The arguments are declared \<^verbatim>\<open>string\<close>, but \<^verbatim>\<open>file_generated\<close> can pass
  \<^verbatim>\<open>undefined\<close> through a non-null assertion, so they are options here: \<^verbatim>\<open>join\<close>
  throws on a path that is not a string, \<^verbatim>\<open>writeFile\<close> on data that is not.
\<close>

text \<open>\<^verbatim>\<open>const outputPath = join(OUTPUT_DIR, agentId, filePath)\<close>.\<close>

definition outputPath :: "env \<Rightarrow> string \<Rightarrow> string \<Rightarrow> string" where
  "outputPath e sessionId p = path_join [OUTPUT_DIR e, sessionId, p]"

definition saveFile ::
  "env \<Rightarrow> string option \<Rightarrow> string option \<Rightarrow> session \<Rightarrow> error option \<times> session" where
  "saveFile e path contents st =
     (let st1 = st\<lparr>saveFile_calls := saveFile_calls st @ [(path, contents)]\<rparr>
      in if \<not> truthy (agentId st) then (None, st1)
         else (case path of
                 None \<Rightarrow> (Some TypeError, st1)
               | Some p \<Rightarrow>
                   let out = outputPath e (the (agentId st)) p;
                       dir = dirname out
                   in if \<not> mkdir_ok e dir then (Some IOError, st1)
                      else (case contents of
                              None \<Rightarrow> (Some TypeError, st1)
                            | Some c \<Rightarrow>
                                if \<not> writeFile_ok e out then (Some IOError, st1)
                                else (None, st1\<lparr>written := written st1 @ [(out, c)],
                                                filesMap := AList.update p c (filesMap st1)\<rparr>))))"

subsection \<open>Inbound frames (\<^verbatim>\<open>types.ts\<close>)\<close>

text \<open>
  \<^verbatim>\<open>WebSocketResponse\<close> is a union of interfaces told apart by the string field
  \<^verbatim>\<open>type\<close>; almost every other field is optional. A frame is the record of the fields
  the dispatcher reads, \<open>None\<close> where the frame does not carry the field. The inline
  object of \<^verbatim>\<open>FileMessage.file\<close> and the values of \<^verbatim>\<open>generatedFilesMap\<close> have the same
  required fields and share the record \<open>FileOutput\<close>; the flattened fields of a
  \<^verbatim>\<open>FileMessage\<close> are \<open>msg_filePath\<close>, \<open>msg_fileContents\<close> and \<open>msg_size\<close>.
  \<^verbatim>\<open>Object.entries(generatedFilesMap)\<close> is the list of the object's properties; a
  JavaScript object has each key once.
\<close>

record FileOutput =
  filePath :: string
  fileContents :: string

record AgentState =
  generatedFilesMap :: "(string \<times> FileOutput) list"

record WebSocketResponse =
  mtype :: string
  state :: "AgentState option"
  phaseNumber :: "nat option"
  msg_filePath :: "string option"
  msg_fileContents :: "string option"
  chunk :: "string option"
  msg_size :: "nat option"
  msg_file :: "FileOutput option"
  deployedUrl :: "string option"
  previewURL :: "string option"
  previewUrl :: "string option"
  deploymentUrl :: "string option"
  workersUrl :: "string option"

text \<open>A frame of kind \<open>t\<close> that carries no other field.\<close>

definition frame :: "string \<Rightarrow> WebSocketResponse" where
  "frame t =
     \<lparr>mtype = t, state = None, phaseNumber = None, msg_filePath = None,
      msg_fileContents = None, chunk = None, msg_size = None, msg_file = None,
      deployedUrl = None, previewURL = None, previewUrl = None,
      deploymentUrl = None, workersUrl = None\<rparr>"

subsection \<open>\<^verbatim>\<open>handleWebSocketMessage\<close>\<close>

text \<open>
  The loop of the \<^verbatim>\<open>agent_connected\<close> case: \<^verbatim>\<open>await saveFile(path, file.fileContents)\<close>
  for each entry; an exception leaves the loop and the handler.
\<close>

fun save_entries ::
  "env \<Rightarrow> (string \<times> FileOutput) list \<Rightarrow> session \<Rightarrow> error option \<times> session" where
  "save_entries e [] st = (None, st)"
| "save_entries e ((path, f) # rest) st =
     (case saveFile e (Some path) (Some (fileContents f)) st of
        (None, st') \<Rightarrow> save_entries e rest st'
      | (Some err, st') \<Rightarrow> (Some err, st'))"

text \<open>
  The \<^verbatim>\<open>file_generated\<close> case. \<^verbatim>\<open>msg.file || {filePath: msg.filePath!, fileContents:
  msg.fileContents!, ...}\<close> takes the inline object when there is one and the flattened
  fields otherwise, which may be undefined. After the save,
  \<^verbatim>\<open>msg.size || file.fileContents.length\<close> reads the length of the contents unless the
  size is a non-zero number.
\<close>

definition file_args :: "WebSocketResponse \<Rightarrow> string option \<times> string option" where
  "file_args m =
     (case msg_file m of
        Some f \<Rightarrow> (Some (filePath f), Some (fileContents f))
      | None \<Rightarrow> (msg_filePath m, msg_fileContents m))"

definition file_generated ::
  "env \<Rightarrow> WebSocketResponse \<Rightarrow> session \<Rightarrow> error option \<times> session" where
  "file_generated e m st =
     (case saveFile e (fst (file_args m)) (snd (file_args m)) st of
        (Some err, st') \<Rightarrow> (Some err, st')
      | (None, st') \<Rightarrow>
          (if (case msg_size m of None \<Rightarrow> False | Some n \<Rightarrow> n \<noteq> 0) then (None, st')
           else if snd (file_args m) = None then (Some TypeError, st')
           else (None, st')))"

text \<open>
  The URL of a completion frame: \<^verbatim>\<open>msg.deployedUrl || msg.previewURL || msg.previewUrl\<close>
  for \<^verbatim>\<open>deployment_completed\<close>, \<^verbatim>\<open>msg.deploymentUrl || msg.workersUrl\<close> for
  \<^verbatim>\<open>cloudflare_deployment_completed\<close>.
\<close>

definition preview_url :: "WebSocketResponse \<Rightarrow> string option" where
  "preview_url m = js_or (js_or (deployedUrl m) (previewURL m)) (previewUrl m)"

definition production_url :: "WebSocketResponse \<Rightarrow> string option" where
  "production_url m = js_or (deploymentUrl m) (workersUrl m)"

text \<open>
  The dispatcher, one branch per \<^verbatim>\<open>case\<close> label in the order of the source. The branches
  that only print return the state as it is.
\<close>

definition handleWebSocketMessage ::
  "env \<Rightarrow> WebSocketResponse \<Rightarrow> session \<Rightarrow> error option \<times> session" where
  "handleWebSocketMessage e m st =
     (let t = mtype m in
      if t = ''agent_connected'' then
        (case state m of
           None \<Rightarrow> (Some TypeError, st)
         | Some s \<Rightarrow> save_entries e (generatedFilesMap s) st)
      else if t = ''generation_started'' \<or> t = ''generation_complete''
            \<or> t = ''generation_stopped'' \<or> t = ''generation_resumed'' then (None, st)
      else if t = ''phase_generating'' \<or> t = ''phase_implementing''
            \<or> t = ''phase_validating'' then (None, st)
      else if t = ''phase_generated'' \<or> t = ''phase_implemented''
            \<or> t = ''phase_validated'' then (None, st)
      else if t = ''phase_failed'' then (None, st)
      else if t = ''file_generating'' then (None, st)
      else if t = ''file_chunk_generated'' then (None, st)
      else if t = ''file_generated'' then file_generated e m st
      else if t = ''deployment_started'' then (None, st)
      else if t = ''deployment_completed'' then
        (let url = preview_url m
         in (None, st\<lparr>lastDeploymentUrl := or_null url\<rparr>))
      else if t = ''deployment_failed'' then (None, st)
      else if t = ''cloudflare_deployment_started'' then (None, st)
      else if t = ''cloudflare_deployment_completed'' then
        (let url = production_url m
         in (None, st\<lparr>lastDeploymentUrl := or_null url\<rparr>))
      else if t = ''cloudflare_deployment_error'' then (None, st)
      else if t = ''conversation_response'' then (None, st)
      else if t = ''conversation_state'' then (None, st)
      else if t = ''error'' \<or> t = ''rate_limit_error'' then (None, st)
      else (None, st))"

text \<open>The \<^verbatim>\<open>case\<close> labels of the dispatcher.\<close>

definition recognized_types :: "string list" where
  "recognized_types =
     [''agent_connected'', ''generation_started'', ''generation_complete'',
      ''generation_stopped'', ''generation_resumed'', ''phase_generating'',
      ''phase_implementing'', ''phase_validating'', ''phase_generated'',
      ''phase_implemented'', ''phase_validated'', ''phase_failed'', ''file_generating'',
      ''file_chunk_generated'', ''file_generated'', ''deployment_started'',
      ''deployment_completed'', ''deployment_failed'', ''cloudflare_deployment_started'',
      ''cloudflare_deployment_completed'', ''cloudflare_deployment_error'',
      ''conversation_response'', ''conversation_state'', ''error'', ''rate_limit_error'']"

text \<open>
  The channel delivers frames one by one, each to its own call of the handler. The frames
  are taken in arrival order, each handler finishing before the next frame is looked at;
  the run stops at the first exception, about whose aftermath nothing is said here.
\<close>

fun handle_frames ::
  "env \<Rightarrow> WebSocketResponse list \<Rightarrow> session \<Rightarrow> error option \<times> session" where
  "handle_frames e [] st = (None, st)"
| "handle_frames e (m # ms) st =
     (case handleWebSocketMessage e m st of
        (None, st') \<Rightarrow> handle_frames e ms st'
      | (Some err, st') \<Rightarrow> (Some err, st'))"

subsection \<open>The \<^verbatim>\<open>/url\<close> command\<close>

datatype url_report = Last_deployment_url string | No_deployment_url

definition url_command :: "session \<Rightarrow> url_report" where
  "url_command st =
     (if truthy (lastDeploymentUrl st) then Last_deployment_url (the (lastDeploymentUrl st))
      else No_deployment_url)"

subsection \<open>\<^verbatim>\<open>createAgent\<close>: reading the creation stream\<close>

text \<open>
  The response body arrives as a finite sequence of reads; each read is the text that
  \<^verbatim>\<open>decoder.decode(value, {stream: true})\<close> returns for it. The failures before the
  loop (a response that is not ok, a missing body) are not part of this model.

  \<^verbatim>\<open>JSON.parse\<close> is a parameter. It returns \<open>None\<close> when the \<^verbatim>\<open>try\<close> block throws
  before it changes anything (a syntax error, or the value \<^verbatim>\<open>null\<close>, whose properties
  cannot be read), and otherwise the three properties the loop reads, at their declared
  type. The read of \<^verbatim>\<open>template.name\<close> comes after both assignments and is only
  printed; when it throws, the \<^verbatim>\<open>catch\<close> prints as well and the loop goes on.
  \<^verbatim>\<open>!line.trim()\<close> holds for a line of white space only; the white space modelled is
  the ASCII one.
\<close>

record ParsedLine =
  data_agentId :: "string option"
  data_websocketUrl :: "string option"
  data_chunk :: "string option"

text \<open>What the loop body made of one line.\<close>

datatype stream_frame =
    Terminate
  | Agent_info string string
  | Blueprint_chunk string
  | Other_value
  | Parse_failure string

text \<open>
  The state of the loop: the module-level variables, the carry-over \<open>buffer\<close>, and
  \<open>frames\<close>, the lines processed so far, oldest first.
\<close>

record reader = session +
  buffer :: string
  frames :: "stream_frame list"

definition is_space :: "char \<Rightarrow> bool" where
  "is_space c = (c = CHR '' '' \<or> c = CHR 0x09 \<or> c = CHR 0x0A \<or> c = CHR 0x0B
                 \<or> c = CHR 0x0C \<or> c = CHR 0x0D)"

definition is_blank :: "string \<Rightarrow> bool" where
  "is_blank line = list_all is_space line"

text \<open>The \<^verbatim>\<open>try\<close> block of the loop body.\<close>

definition process_line :: "(string \<Rightarrow> ParsedLine option) \<Rightarrow> string \<Rightarrow> reader \<Rightarrow> reader" where
  "process_line JSON_parse line r =
     (case JSON_parse line of
        None \<Rightarrow> r\<lparr>frames := frames r @ [Parse_failure line]\<rparr>
      | Some data \<Rightarrow>
          if truthy (data_agentId data) \<and> truthy (data_websocketUrl data) then
            r\<lparr>agentId := data_agentId data, websocketUrl := data_websocketUrl data,
              frames := frames r
                @ [Agent_info (the (data_agentId data)) (the (data_websocketUrl data))]\<rparr>
          else if truthy (data_chunk data) then
            r\<lparr>frames := frames r @ [Blueprint_chunk (the (data_chunk data))]\<rparr>
          else r\<lparr>frames := frames r @ [Other_value]\<rparr>)"

text \<open>
  \<^verbatim>\<open>for (const line of lines)\<close>: a blank line is skipped; at the sentinel the
  \<^verbatim>\<open>break\<close> leaves this loop, so the lines after it in \<open>lines\<close> are not looked at.
\<close>

fun process_lines :: "(string \<Rightarrow> ParsedLine option) \<Rightarrow> string list \<Rightarrow> reader \<Rightarrow> reader" where
  "process_lines JSON_parse [] r = r"
| "process_lines JSON_parse (line # rest) r =
     (if is_blank line then process_lines JSON_parse rest r
      else if line = ''terminate'' then r\<lparr>frames := frames r @ [Terminate]\<rparr>
      else process_lines JSON_parse rest (process_line JSON_parse line r))"

text \<open>
  \<^verbatim>\<open>while (true)\<close>: the loop ends when the reader reports \<^verbatim>\<open>done\<close>, that is when the
  reads are used up; nothing is done with the buffer then. Otherwise the read is appended
  to the buffer, the text is split at the newlines, the last piece
  (\<^verbatim>\<open>lines.pop() || ''\<close>) becomes the buffer and the other pieces are processed.
\<close>

fun read_loop :: "(string \<Rightarrow> ParsedLine option) \<Rightarrow> string list \<Rightarrow> reader \<Rightarrow> reader" where
  "read_loop JSON_parse [] r = r"
| "read_loop JSON_parse (v # reads) r =
     (let lines = split_on (CHR 0x0A) (buffer r @ v)
      in read_loop JSON_parse reads
           (process_lines JSON_parse (butlast lines) (r\<lparr>buffer := last lines\<rparr>)))"

definition createAgent :: "(string \<Rightarrow> ParsedLine option) \<Rightarrow> string list \<Rightarrow> session \<Rightarrow> reader" where
  "createAgent JSON_parse reads st =
     read_loop JSON_parse reads
       \<lparr>agentId = agentId st, websocketUrl = websocketUrl st, filesMap = filesMap st,
        lastDeploymentUrl = lastDeploymentUrl st, written = written st,
        saveFile_calls = saveFile_calls st, buffer = [], frames = []\<rparr>"

subsection \<open>Reference notions used in the statements\<close>

text \<open>
  The fallback chain as the specification words it: the first field of the list that
  holds a non-empty string, none when no field does.
\<close>

fun first_non_empty :: "string option list \<Rightarrow> string option" where
  "first_non_empty [] = None"
| "first_non_empty (f # fs) =
     (case f of
        None \<Rightarrow> first_non_empty fs
      | Some s \<Rightarrow> if s = [] then first_non_empty fs else Some s)"

text \<open>The default configuration, on a disk that accepts every write.\<close>

definition default_env :: env where
  "default_env = \<lparr>OUTPUT_DIR = ''./output'', mkdir_ok = (\<lambda>_. True), writeFile_ok = (\<lambda>_. True)\<rparr>"

text \<open>
  Confinement of a path under a root directory, on the segments between slashes (empty
  segments and \<^verbatim>\<open>.\<close> do not count): both are absolute or both relative, the segments
  of the root begin the segments of the path, and no later segment is \<^verbatim>\<open>..\<close>.
\<close>

definition is_absolute :: "string \<Rightarrow> bool" where
  "is_absolute path = (case path of [] \<Rightarrow> False | c # _ \<Rightarrow> c = CHR ''/'')"

definition segments :: "string \<Rightarrow> string list" where
  "segments path = filter (\<lambda>s. s \<noteq> [] \<and> s \<noteq> ''.'') (split_on (CHR ''/'') path)"

definition confined :: "string \<Rightarrow> string \<Rightarrow> bool" where
  "confined root path =
     ((is_absolute root \<longleftrightarrow> is_absolute path)
      \<and> prefix (segments root) (segments path)
      \<and> ''..'' \<notin> set (drop (length (segments root)) (segments path)))"

text \<open>Segments as normalisation leaves them: not empty, not \<^verbatim>\<open>.\<close>, without a slash.\<close>

definition clean :: "string list \<Rightarrow> bool" where
  "clean N = (\<forall>s \<in> set N. s \<noteq> [] \<and> s \<noteq> ''.'' \<and> CHR ''/'' \<notin> set s)"

text \<open>
  \<^verbatim>\<open>JSON.parse\<close> on the two lines the examples below use, a session-info object and a
  chunk object; the examples contain no other line.
\<close>

definition sample_parse :: "string \<Rightarrow> ParsedLine option" where
  \<open>sample_parse line =
     (if line = ''{"agentId":"a1","websocketUrl":"ws://x","template":{"name":"t","files":[]}}''
      then Some \<lparr>data_agentId = Some ''a1'', data_websocketUrl = Some ''ws://x'',
                 data_chunk = None\<rparr>
      else if line = ''{"chunk":"hello"}''
      then Some \<lparr>data_agentId = None, data_websocketUrl = None, data_chunk = Some ''hello''\<rparr>
      else None)\<close>

text \<open>The operating system lets \<^verbatim>\<open>saveFile\<close> create the directory and write the file.\<close>

definition write_ok :: "env \<Rightarrow> string \<Rightarrow> string \<Rightarrow> bool" where
  "write_ok e sessionId p =
     (mkdir_ok e (dirname (outputPath e sessionId p)) \<and> writeFile_ok e (outputPath e sessionId p))"

text \<open>The server-reported snapshot as a file map: each path with its entry's contents.\<close>

definition snapshot :: "AgentState \<Rightarrow> (string \<times> string) list" where
  "snapshot s = map (\<lambda>(p, f). (p, fileContents f)) (generatedFilesMap s)"

text \<open>A completion frame of either lineage, and the URL it resolves to.\<close>

definition is_completion :: "WebSocketResponse \<Rightarrow> bool" where
  "is_completion m =
     (mtype m = ''deployment_completed'' \<or> mtype m = ''cloudflare_deployment_completed'')"

definition resolved_url :: "WebSocketResponse \<Rightarrow> string option" where
  "resolved_url m =
     (if mtype m = ''deployment_completed'' then preview_url m else production_url m)"

text \<open>The seven phase-progress kinds.\<close>

definition phase_types :: "string list" where
  "phase_types =
     [''phase_generating'', ''phase_implementing'', ''phase_validating'', ''phase_generated'',
      ''phase_implemented'', ''phase_validated'', ''phase_failed'']"

section \<open>Properties of the dispatcher\<close>

subsection \<open>Deployment URLs\<close>

lemma or_null_preview_url:
  "or_null (preview_url m) = first_non_empty [deployedUrl m, previewURL m, previewUrl m]"
  by (simp add: preview_url_def or_null_def js_or_def truthy_def split: option.splits)

lemma or_null_production_url:
  "or_null (production_url m) = first_non_empty [deploymentUrl m, workersUrl m]"
  by (simp add: production_url_def or_null_def js_or_def truthy_def split: option.splits)

lemma handle_preview_completed:
  "mtype m = ''deployment_completed'' \<Longrightarrow>
   handleWebSocketMessage e m st = (None, st\<lparr>lastDeploymentUrl := or_null (preview_url m)\<rparr>)"
  by (simp add: handleWebSocketMessage_def)

lemma handle_production_completed:
  "mtype m = ''cloudflare_deployment_completed'' \<Longrightarrow>
   handleWebSocketMessage e m st =
     (None, st\<lparr>lastDeploymentUrl := or_null (production_url m)\<rparr>)"
  by (simp add: handleWebSocketMessage_def)

text \<open>
  C5. A completion frame stores the URL found by the ordered fallback chain of its
  lineage, the first non-empty field winning: \<^verbatim>\<open>deployedUrl\<close>, \<^verbatim>\<open>previewURL\<close>,
  \<^verbatim>\<open>previewUrl\<close> for the preview lineage, \<^verbatim>\<open>deploymentUrl\<close>, \<^verbatim>\<open>workersUrl\<close> for
  the production lineage. With the first field absent and the second holding a non-empty
  string, the URL is the second field's value, whatever the third holds.
\<close>

theorem completion_url_fallback_chain:
  "(mtype m = ''deployment_completed'' \<longrightarrow>
      or_null (preview_url m) = first_non_empty [deployedUrl m, previewURL m, previewUrl m]
      \<and> lastDeploymentUrl (snd (handleWebSocketMessage e m st))
          = first_non_empty [deployedUrl m, previewURL m, previewUrl m]
      \<and> (deployedUrl m = None \<and> previewURL m = Some b \<and> b \<noteq> [] \<longrightarrow>
            preview_url m = Some b
            \<and> lastDeploymentUrl (snd (handleWebSocketMessage e m st)) = Some b))
   \<and> (mtype m = ''cloudflare_deployment_completed'' \<longrightarrow>
      or_null (production_url m) = first_non_empty [deploymentUrl m, workersUrl m]
      \<and> lastDeploymentUrl (snd (handleWebSocketMessage e m st))
          = first_non_empty [deploymentUrl m, workersUrl m])"
  by (simp add: handle_preview_completed handle_production_completed or_null_preview_url
      or_null_production_url)
    (simp add: preview_url_def js_or_def truthy_def)

theorem completion_url_fallback_chain_witness:
  "mtype ((frame ''deployment_completed'')
      \<lparr>previewURL := Some ''https://b.example'', previewUrl := Some ''https://c.example''\<rparr>)
     = ''deployment_completed''
   \<and> deployedUrl ((frame ''deployment_completed'')
      \<lparr>previewURL := Some ''https://b.example'', previewUrl := Some ''https://c.example''\<rparr>)
     = None
   \<and> lastDeploymentUrl (snd (handleWebSocketMessage default_env
        ((frame ''deployment_completed'')
          \<lparr>previewURL := Some ''https://b.example'', previewUrl := Some ''https://c.example''\<rparr>)
        initial_session)) = Some ''https://b.example''
   \<and> mtype ((frame ''cloudflare_deployment_completed'')
      \<lparr>workersUrl := Some ''https://w.workers.dev''\<rparr>) = ''cloudflare_deployment_completed''
   \<and> lastDeploymentUrl (snd (handleWebSocketMessage default_env
        ((frame ''cloudflare_deployment_completed'')\<lparr>workersUrl := Some ''https://w.workers.dev''\<rparr>)
        initial_session)) = Some ''https://w.workers.dev''"
  using completion_url_fallback_chain
    [of "(frame ''deployment_completed'')
          \<lparr>previewURL := Some ''https://b.example'', previewUrl := Some ''https://c.example''\<rparr>"
        default_env initial_session "''https://b.example''"]
    completion_url_fallback_chain
    [of "(frame ''cloudflare_deployment_completed'')\<lparr>workersUrl := Some ''https://w.workers.dev''\<rparr>"
        default_env initial_session "[]"]
  by (simp add: frame_def)

text \<open>
  C10. A completion frame of either lineage in which no field of the chain holds a
  non-empty string sets the stored URL to null: a URL stored before is erased, and
  \<^verbatim>\<open>/url\<close> then reports that no deployment URL is available.
\<close>

theorem completion_without_url_clears_latest:
  assumes "(mtype m = ''deployment_completed'' \<and> \<not> truthy (deployedUrl m)
              \<and> \<not> truthy (previewURL m) \<and> \<not> truthy (previewUrl m))
           \<or> (mtype m = ''cloudflare_deployment_completed'' \<and> \<not> truthy (deploymentUrl m)
              \<and> \<not> truthy (workersUrl m))"
  shows "handleWebSocketMessage e m st = (None, st\<lparr>lastDeploymentUrl := None\<rparr>)
         \<and> url_command (snd (handleWebSocketMessage e m st)) = No_deployment_url"
  using assms
  by (auto simp: handle_preview_completed handle_production_completed preview_url_def
      production_url_def js_or_def or_null_def url_command_def truthy_def)

theorem completion_without_url_clears_latest_witness:
  "url_command (initial_session\<lparr>lastDeploymentUrl := Some ''https://old.example''\<rparr>)
     = Last_deployment_url ''https://old.example''
   \<and> handleWebSocketMessage default_env (frame ''deployment_completed'')
        (initial_session\<lparr>lastDeploymentUrl := Some ''https://old.example''\<rparr>)
     = (None, initial_session)
   \<and> url_command (snd (handleWebSocketMessage default_env (frame ''deployment_completed'')
        (initial_session\<lparr>lastDeploymentUrl := Some ''https://old.example''\<rparr>)))
     = No_deployment_url
   \<and> handleWebSocketMessage default_env
        ((frame ''cloudflare_deployment_completed'')\<lparr>workersUrl := Some []\<rparr>)
        (initial_session\<lparr>lastDeploymentUrl := Some ''https://old.example''\<rparr>)
     = (None, initial_session)"
  using completion_without_url_clears_latest
    [of "frame ''deployment_completed''" default_env
        "initial_session\<lparr>lastDeploymentUrl := Some ''https://old.example''\<rparr>"]
    completion_without_url_clears_latest
    [of "(frame ''cloudflare_deployment_completed'')\<lparr>workersUrl := Some []\<rparr>" default_env
        "initial_session\<lparr>lastDeploymentUrl := Some ''https://old.example''\<rparr>"]
  by (simp add: frame_def truthy_def url_command_def initial_session_def)

lemma handle_completion:
  "is_completion m \<Longrightarrow>
   handleWebSocketMessage e m st = (None, st\<lparr>lastDeploymentUrl := or_null (resolved_url m)\<rparr>)"
  by (auto simp: is_completion_def resolved_url_def handle_preview_completed
      handle_production_completed)

lemma handle_completions:
  "ms \<noteq> [] \<Longrightarrow> \<forall>m \<in> set ms. is_completion m \<Longrightarrow>
   handle_frames e ms st = (None, st\<lparr>lastDeploymentUrl := or_null (resolved_url (last ms))\<rparr>)"
proof (induction ms arbitrary: st)
  case Nil
  then show ?case by simp
next
  case (Cons m ms)
  show ?case
  proof (cases "ms = []")
    case True
    with Cons.prems show ?thesis by (simp add: handle_completion)
  next
    case False
    with Cons show ?thesis by (simp add: handle_completion)
  qed
qed

text \<open>
  C6, as the code has it. After any non-empty sequence of completion frames of the two
  lineages, in any interleaving, the stored latest URL is the one resolved from the frame
  handled last (null when that frame resolves none), and \<^verbatim>\<open>/url\<close> reports it. Nothing
  else in the session changes: the single slot is all the client stores about either
  lineage.
\<close>

theorem latest_url_is_last_completion:
  assumes "ms \<noteq> []" and "\<forall>m \<in> set ms. is_completion m"
  shows "handle_frames e ms st
           = (None, st\<lparr>lastDeploymentUrl := or_null (resolved_url (last ms))\<rparr>)
         \<and> url_command (snd (handle_frames e ms st))
           = (case or_null (resolved_url (last ms)) of
                Some u \<Rightarrow> Last_deployment_url u
              | None \<Rightarrow> No_deployment_url)"
  using handle_completions [OF assms, of e st]
  by (auto simp: url_command_def or_null_def truthy_def split: option.splits)

theorem latest_url_is_last_completion_witness:
  "[(frame ''cloudflare_deployment_completed'')\<lparr>deploymentUrl := Some ''https://app.workers.dev''\<rparr>,
    (frame ''deployment_completed'')\<lparr>previewURL := Some ''https://preview.example''\<rparr>] \<noteq> []
   \<and> is_completion
        ((frame ''cloudflare_deployment_completed'')\<lparr>deploymentUrl := Some ''https://app.workers.dev''\<rparr>)
   \<and> is_completion ((frame ''deployment_completed'')\<lparr>previewURL := Some ''https://preview.example''\<rparr>)
   \<and> handle_frames default_env
        [(frame ''cloudflare_deployment_completed'')\<lparr>deploymentUrl := Some ''https://app.workers.dev''\<rparr>,
         (frame ''deployment_completed'')\<lparr>previewURL := Some ''https://preview.example''\<rparr>]
        initial_session
     = (None, initial_session\<lparr>lastDeploymentUrl := Some ''https://preview.example''\<rparr>)"
  using latest_url_is_last_completion
    [of "[(frame ''cloudflare_deployment_completed'')\<lparr>deploymentUrl := Some ''https://app.workers.dev''\<rparr>,
          (frame ''deployment_completed'')\<lparr>previewURL := Some ''https://preview.example''\<rparr>]"
        default_env initial_session]
  by (simp add: is_completion_def resolved_url_def preview_url_def js_or_def or_null_def
      truthy_def frame_def)

text \<open>
  The sentence of the specification does not hold of the code: the URL delivered by the preview lineage is held in the same
  slot, and a production completion replaces it. After both frames the session is the
  initial one with the production URL; the preview URL is nowhere in it.
\<close>

theorem preview_url_replaced_by_production:
  "handle_frames default_env
     [(frame ''deployment_completed'')\<lparr>previewURL := Some ''https://preview.example''\<rparr>]
     initial_session
     = (None, initial_session\<lparr>lastDeploymentUrl := Some ''https://preview.example''\<rparr>)
   \<and> handle_frames default_env
     [(frame ''deployment_completed'')\<lparr>previewURL := Some ''https://preview.example''\<rparr>,
      (frame ''cloudflare_deployment_completed'')\<lparr>deploymentUrl := Some ''https://app.workers.dev''\<rparr>]
     initial_session
     = (None, initial_session\<lparr>lastDeploymentUrl := Some ''https://app.workers.dev''\<rparr>)"
  by (simp add: handleWebSocketMessage_def preview_url_def production_url_def js_or_def
      or_null_def truthy_def frame_def)

subsection \<open>Unknown frames\<close>

text \<open>
  C7. A frame whose discriminant is none of the dispatcher's \<^verbatim>\<open>case\<close> labels raises
  nothing and leaves the whole session as it was (file map, latest URL, session identity,
  disk, no call of \<^verbatim>\<open>saveFile\<close>); the frames after it are handled as if it had not
  arrived.
\<close>

theorem unknown_frame_ignored:
  "mtype m \<notin> set recognized_types \<Longrightarrow>
   handleWebSocketMessage e m st = (None, st)
   \<and> handle_frames e (m # ms) st = handle_frames e ms st"
  by (simp add: handleWebSocketMessage_def recognized_types_def)

theorem unknown_frame_ignored_witness:
  "mtype (frame ''model_configs_info'') \<notin> set recognized_types
   \<and> handleWebSocketMessage default_env (frame ''model_configs_info'') initial_session
     = (None, initial_session)
   \<and> handle_frames default_env
        [frame ''model_configs_info'',
         (frame ''deployment_completed'')\<lparr>deployedUrl := Some ''https://d.example''\<rparr>]
        initial_session
     = (None, initial_session\<lparr>lastDeploymentUrl := Some ''https://d.example''\<rparr>)"
  using unknown_frame_ignored
    [of "frame ''model_configs_info''" default_env initial_session
        "[(frame ''deployment_completed'')\<lparr>deployedUrl := Some ''https://d.example''\<rparr>]"]
  by (simp add: recognized_types_def frame_def handle_preview_completed preview_url_def
      js_or_def or_null_def truthy_def)

subsection \<open>Phase frames\<close>

lemma handle_phase:
  "mtype m \<in> set phase_types \<Longrightarrow> handleWebSocketMessage e m st = (None, st)"
  by (auto simp: handleWebSocketMessage_def phase_types_def)

text \<open>
  C8, as the code has it. The handler keeps no status per phase number: every
  phase-progress frame, \<^verbatim>\<open>phase_failed\<close> included, is printed and leaves the session
  unchanged, and none is rejected, whatever frames came before.
\<close>

theorem phase_frames_keep_no_status:
  "\<forall>m \<in> set ms. mtype m \<in> set phase_types \<Longrightarrow> handle_frames e ms st = (None, st)"
  by (induction ms) (simp_all add: handle_phase)

theorem phase_frames_keep_no_status_witness:
  "mtype ((frame ''phase_failed'')\<lparr>phaseNumber := Some 1\<rparr>) \<in> set phase_types
   \<and> mtype ((frame ''phase_generating'')\<lparr>phaseNumber := Some 2\<rparr>) \<in> set phase_types
   \<and> handle_frames default_env
        [(frame ''phase_failed'')\<lparr>phaseNumber := Some 1\<rparr>,
         (frame ''phase_generating'')\<lparr>phaseNumber := Some 2\<rparr>]
        (initial_session\<lparr>agentId := Some ''a1''\<rparr>)
     = (None, initial_session\<lparr>agentId := Some ''a1''\<rparr>)"
  using phase_frames_keep_no_status
    [of "[(frame ''phase_failed'')\<lparr>phaseNumber := Some 1\<rparr>,
          (frame ''phase_generating'')\<lparr>phaseNumber := Some 2\<rparr>]"
        default_env "initial_session\<lparr>agentId := Some ''a1''\<rparr>"]
  by (simp add: phase_types_def frame_def)

text \<open>
  The sentence of the specification does not hold of the code: after \<^verbatim>\<open>phase_failed\<close> for phase 1, a
  \<^verbatim>\<open>phase_validated\<close> frame for phase 1 is accepted without an error, exactly as it is
  when no failure came before.
\<close>

theorem phase_frame_after_failed_accepted:
  "handle_frames default_env
     [(frame ''phase_failed'')\<lparr>phaseNumber := Some 1\<rparr>,
      (frame ''phase_validated'')\<lparr>phaseNumber := Some 1\<rparr>]
     initial_session
     = (None, initial_session)
   \<and> handleWebSocketMessage default_env ((frame ''phase_validated'')\<lparr>phaseNumber := Some 1\<rparr>)
       (snd (handleWebSocketMessage default_env ((frame ''phase_failed'')\<lparr>phaseNumber := Some 1\<rparr>)
          initial_session))
     = handleWebSocketMessage default_env ((frame ''phase_validated'')\<lparr>phaseNumber := Some 1\<rparr>)
         initial_session"
  by (simp add: handleWebSocketMessage_def frame_def)

subsection \<open>Saving files\<close>

lemma saveFile_calls_snd:
  "saveFile_calls (snd (saveFile e p c st)) = saveFile_calls st @ [(p, c)]"
  by (simp add: saveFile_def Let_def split: option.splits)

lemma saveFile_success:
  "agentId st = Some a \<Longrightarrow> a \<noteq> [] \<Longrightarrow> write_ok e a p \<Longrightarrow>
   saveFile e (Some p) (Some c) st =
     (None, st\<lparr>saveFile_calls := saveFile_calls st @ [(Some p, Some c)],
               written := written st @ [(outputPath e a p, c)],
               filesMap := AList.update p c (filesMap st)\<rparr>)"
  by (simp add: saveFile_def Let_def write_ok_def truthy_def)

lemma save_entries_success:
  "agentId st = Some a \<Longrightarrow> a \<noteq> [] \<Longrightarrow> \<forall>(p, f) \<in> set entries. write_ok e a p \<Longrightarrow>
   save_entries e entries st =
     (None, st\<lparr>saveFile_calls :=
                 saveFile_calls st @ map (\<lambda>(p, f). (Some p, Some (fileContents f))) entries,
               written := written st @ map (\<lambda>(p, f). (outputPath e a p, fileContents f)) entries,
               filesMap := fold (\<lambda>(p, f). AList.update p (fileContents f)) entries (filesMap st)\<rparr>)"
proof (induction entries arbitrary: st)
  case Nil
  then show ?case by simp
next
  case (Cons x xs)
  obtain p f where x: "x = (p, f)" by (cases x)
  show ?case using Cons.prems
    by (simp add: x saveFile_success Cons.IH)
qed

lemma saveFile_without_session:
  "\<not> truthy (agentId st) \<Longrightarrow>
   saveFile e p c st = (None, st\<lparr>saveFile_calls := saveFile_calls st @ [(p, c)]\<rparr>)"
  by (simp add: saveFile_def)

lemma save_entries_without_session:
  "\<not> truthy (agentId st) \<Longrightarrow>
   save_entries e entries st =
     (None, st\<lparr>saveFile_calls :=
                 saveFile_calls st @ map (\<lambda>(p, f). (Some p, Some (fileContents f))) entries\<rparr>)"
proof (induction entries arbitrary: st)
  case Nil
  then show ?case by simp
next
  case (Cons x xs)
  obtain p f where x: "x = (p, f)" by (cases x)
  show ?case using Cons.prems
    by (simp add: x saveFile_without_session Cons.IH)
qed

lemma update_fresh: "k \<notin> fst ` set al \<Longrightarrow> AList.update k v al = al @ [(k, v)]"
  by (induction al) auto

lemma fold_update_fresh:
  "distinct (map fst xs) \<Longrightarrow> fst ` set xs \<inter> fst ` set al = {} \<Longrightarrow>
   fold (\<lambda>(p, f). AList.update p (g f)) xs al = al @ map (\<lambda>(p, f). (p, g f)) xs"
proof (induction xs arbitrary: al)
  case Nil
  then show ?case by simp
next
  case (Cons x xs)
  obtain p f where x: "x = (p, f)" by (cases x)
  have "p \<notin> fst ` set al" using Cons.prems x by auto
  then have u: "AList.update p (g f) al = al @ [(p, g f)]" by (rule update_fresh)
  have "fst ` set xs \<inter> fst ` set (al @ [(p, g f)]) = {}"
    using Cons.prems x by (auto simp: image_iff)
  with Cons.IH [of "al @ [(p, g f)]"] Cons.prems x u show ?case by simp
qed

lemma map_of_fold_update:
  "distinct (map fst xs) \<Longrightarrow>
   map_of (fold (\<lambda>(p, f). AList.update p (g f)) xs al)
     = map_of al ++ map_of (map (\<lambda>(p, f). (p, g f)) xs)"
proof (induction xs arbitrary: al)
  case Nil
  then show ?case by simp
next
  case (Cons x xs)
  obtain p f where x: "x = (p, f)" by (cases x)
  have notin: "p \<notin> fst ` set xs" using Cons.prems x by (auto simp: image_iff)
  have "map_of (map (\<lambda>(p, f). (p, g f)) xs) p = None"
    using notin by (auto simp: map_of_eq_None_iff image_iff)
  then show ?case using Cons x
    by (auto simp: update_conv' fun_eq_iff map_add_def split: option.splits)
qed


lemma handle_file_generated:
  "mtype d = ''file_generated'' \<Longrightarrow> handleWebSocketMessage e d st = file_generated e d st"
  by (simp add: handleWebSocketMessage_def)

lemma handle_agent_connected:
  "mtype m = ''agent_connected'' \<Longrightarrow> state m = Some s \<Longrightarrow>
   handleWebSocketMessage e m st = save_entries e (generatedFilesMap s) st"
  by (simp add: handleWebSocketMessage_def)

text \<open>
  C3, as the code has it. For an \<^verbatim>\<open>agent_connected\<close> frame whose snapshot carries N
  entries, with the session id set and every write succeeding, the handler calls
  \<^verbatim>\<open>saveFile\<close> exactly N times, once per entry in order with that entry's contents,
  writes the N files, and merges the snapshot into the local file map: every snapshot path
  holds its entry's contents and the entries of other paths stay. The map is the snapshot
  itself, of size N, when it was empty before.
\<close>

theorem agent_connected_merges_snapshot:
  assumes "mtype m = ''agent_connected''" and "state m = Some s"
    and "agentId st = Some a" and "a \<noteq> []"
    and "\<forall>(p, f) \<in> set (generatedFilesMap s). write_ok e a p"
    and "distinct (map fst (generatedFilesMap s))"
  shows "fst (handleWebSocketMessage e m st) = None
    \<and> saveFile_calls (snd (handleWebSocketMessage e m st))
        = saveFile_calls st
          @ map (\<lambda>(p, f). (Some p, Some (fileContents f))) (generatedFilesMap s)
    \<and> length (saveFile_calls (snd (handleWebSocketMessage e m st)))
        = length (saveFile_calls st) + length (generatedFilesMap s)
    \<and> written (snd (handleWebSocketMessage e m st))
        = written st @ map (\<lambda>(p, f). (outputPath e a p, fileContents f)) (generatedFilesMap s)
    \<and> map_of (filesMap (snd (handleWebSocketMessage e m st)))
        = map_of (filesMap st) ++ map_of (snapshot s)
    \<and> (filesMap st = [] \<longrightarrow>
          filesMap (snd (handleWebSocketMessage e m st)) = snapshot s
          \<and> length (filesMap (snd (handleWebSocketMessage e m st)))
              = length (generatedFilesMap s))"
proof -
  have h: "handleWebSocketMessage e m st =
     (None, st\<lparr>saveFile_calls :=
                 saveFile_calls st
                 @ map (\<lambda>(p, f). (Some p, Some (fileContents f))) (generatedFilesMap s),
               written := written st
                 @ map (\<lambda>(p, f). (outputPath e a p, fileContents f)) (generatedFilesMap s),
               filesMap := fold (\<lambda>(p, f). AList.update p (fileContents f))
                 (generatedFilesMap s) (filesMap st)\<rparr>)"
    using assms(1-5) by (simp add: handle_agent_connected save_entries_success)
  have m: "map_of (fold (\<lambda>(p, f). AList.update p (fileContents f)) (generatedFilesMap s)
              (filesMap st)) = map_of (filesMap st) ++ map_of (snapshot s)"
    using assms(6) by (simp add: map_of_fold_update snapshot_def)
  have f: "filesMap st = [] \<Longrightarrow>
       fold (\<lambda>(p, f). AList.update p (fileContents f)) (generatedFilesMap s) (filesMap st)
         = snapshot s"
    using assms(6) fold_update_fresh [of "generatedFilesMap s" "[]" fileContents]
    by (simp add: snapshot_def)
  show ?thesis using h m f by (simp add: snapshot_def)
qed

lemma outputPath_a_txt: "outputPath default_env ''a1'' ''a.txt'' = ''output/a1/a.txt''"
  by code_simp

lemma outputPath_b_txt: "outputPath default_env ''a1'' ''src/b.txt'' = ''output/a1/src/b.txt''"
  by code_simp

lemma write_ok_default: "write_ok default_env a p"
  by (simp add: write_ok_def default_env_def)

theorem agent_connected_merges_snapshot_witness:
  "fst (handleWebSocketMessage default_env
     ((frame ''agent_connected'')\<lparr>state := Some \<lparr>generatedFilesMap =
        [(''a.txt'', \<lparr>filePath = ''a.txt'', fileContents = ''A''\<rparr>),
         (''src/b.txt'', \<lparr>filePath = ''src/b.txt'', fileContents = ''B''\<rparr>)]\<rparr>\<rparr>)
     (initial_session\<lparr>agentId := Some ''a1''\<rparr>)) = None
   \<and> saveFile_calls (snd (handleWebSocketMessage default_env
     ((frame ''agent_connected'')\<lparr>state := Some \<lparr>generatedFilesMap =
        [(''a.txt'', \<lparr>filePath = ''a.txt'', fileContents = ''A''\<rparr>),
         (''src/b.txt'', \<lparr>filePath = ''src/b.txt'', fileContents = ''B''\<rparr>)]\<rparr>\<rparr>)
     (initial_session\<lparr>agentId := Some ''a1''\<rparr>)))
     = [(Some ''a.txt'', Some ''A''), (Some ''src/b.txt'', Some ''B'')]
   \<and> written (snd (handleWebSocketMessage default_env
     ((frame ''agent_connected'')\<lparr>state := Some \<lparr>generatedFilesMap =
        [(''a.txt'', \<lparr>filePath = ''a.txt'', fileContents = ''A''\<rparr>),
         (''src/b.txt'', \<lparr>filePath = ''src/b.txt'', fileContents = ''B''\<rparr>)]\<rparr>\<rparr>)
     (initial_session\<lparr>agentId := Some ''a1''\<rparr>)))
     = [(''output/a1/a.txt'', ''A''), (''output/a1/src/b.txt'', ''B'')]
   \<and> filesMap (snd (handleWebSocketMessage default_env
     ((frame ''agent_connected'')\<lparr>state := Some \<lparr>generatedFilesMap =
        [(''a.txt'', \<lparr>filePath = ''a.txt'', fileContents = ''A''\<rparr>),
         (''src/b.txt'', \<lparr>filePath = ''src/b.txt'', fileContents = ''B''\<rparr>)]\<rparr>\<rparr>)
     (initial_session\<lparr>agentId := Some ''a1''\<rparr>)))
     = [(''a.txt'', ''A''), (''src/b.txt'', ''B'')]"
  using agent_connected_merges_snapshot
    [of "(frame ''agent_connected'')\<lparr>state := Some \<lparr>generatedFilesMap =
          [(''a.txt'', \<lparr>filePath = ''a.txt'', fileContents = ''A''\<rparr>),
           (''src/b.txt'', \<lparr>filePath = ''src/b.txt'', fileContents = ''B''\<rparr>)]\<rparr>\<rparr>"
        "\<lparr>generatedFilesMap =
          [(''a.txt'', \<lparr>filePath = ''a.txt'', fileContents = ''A''\<rparr>),
           (''src/b.txt'', \<lparr>filePath = ''src/b.txt'', fileContents = ''B''\<rparr>)]\<rparr>"
        "initial_session\<lparr>agentId := Some ''a1''\<rparr>" "''a1''" default_env]
  by (simp add: frame_def initial_session_def write_ok_default snapshot_def outputPath_a_txt
      outputPath_b_txt)

text \<open>
  The sentence of the specification does not hold of the code: a file map that already holds another path keeps it. After a
  \<^verbatim>\<open>file_generated\<close> frame for \<^verbatim>\<open>old.txt\<close>, a snapshot of one entry leaves a map of
  two.
\<close>

theorem agent_connected_keeps_other_entries:
  "filesMap (snd (handle_frames default_env
     [(frame ''file_generated'')
        \<lparr>msg_filePath := Some ''old.txt'', msg_fileContents := Some ''x''\<rparr>,
      (frame ''agent_connected'')\<lparr>state := Some \<lparr>generatedFilesMap =
        [(''a.txt'', \<lparr>filePath = ''a.txt'', fileContents = ''A''\<rparr>)]\<rparr>\<rparr>]
     (initial_session\<lparr>agentId := Some ''a1''\<rparr>)))
   = [(''old.txt'', ''x''), (''a.txt'', ''A'')]"
  by (simp add: handle_agent_connected handle_file_generated frame_def
      file_generated_def file_args_def saveFile_success [of _ "''a1''"] write_ok_default
      initial_session_def)

lemma handle_frames_single: "handle_frames e [m] st = handleWebSocketMessage e m st"
  by (cases "handleWebSocketMessage e m st") (auto split: option.splits)

lemma handle_frames_append_ok:
  "handle_frames e ms st = (None, st') \<Longrightarrow> handle_frames e (ms @ ns) st = handle_frames e ns st'"
  by (induction ms arbitrary: st) (auto split: prod.splits option.splits)

lemma handle_chunks:
  "\<forall>c \<in> set cs. mtype c = ''file_chunk_generated'' \<Longrightarrow> handle_frames e cs st = (None, st)"
  by (induction cs) (simp_all add: handleWebSocketMessage_def)

lemma file_generated_calls:
  "saveFile_calls (snd (file_generated e d st)) = saveFile_calls st @ [file_args d]"
  using saveFile_calls_snd [of e "fst (file_args d)" "snd (file_args d)" st]
  by (auto simp: file_generated_def split: prod.splits option.splits)

lemma file_generated_success:
  "agentId st = Some a \<Longrightarrow> a \<noteq> [] \<Longrightarrow> file_args d = (Some p, Some c) \<Longrightarrow> write_ok e a p \<Longrightarrow>
   file_generated e d st =
     (None, st\<lparr>saveFile_calls := saveFile_calls st @ [(Some p, Some c)],
               written := written st @ [(outputPath e a p, c)],
               filesMap := AList.update p c (filesMap st)\<rparr>)"
  by (simp add: file_generated_def saveFile_success)

text \<open>
  C4. For a \<^verbatim>\<open>file_generating\<close> frame, any number of \<^verbatim>\<open>file_chunk_generated\<close> frames
  and a \<^verbatim>\<open>file_generated\<close> frame, the frames before the last change nothing and call
  nothing; the whole run is the handling of the \<^verbatim>\<open>file_generated\<close> frame alone, which
  calls \<^verbatim>\<open>saveFile\<close> exactly once, with the path and contents of that frame's inline
  object, or of its flattened fields when it has none. With the session id set and the
  write succeeding, these contents are what is written and stored. No chunk enters the
  result.
\<close>

theorem file_sequence_saves_once:
  assumes "mtype g = ''file_generating''"
    and "\<forall>c \<in> set cs. mtype c = ''file_chunk_generated''"
    and "mtype d = ''file_generated''"
  shows "handle_frames e (g # cs) st = (None, st)
    \<and> handle_frames e (g # cs @ [d]) st = handleWebSocketMessage e d st
    \<and> saveFile_calls (snd (handle_frames e (g # cs @ [d]) st)) = saveFile_calls st @ [file_args d]
    \<and> file_args d = (case msg_file d of
                       Some f \<Rightarrow> (Some (filePath f), Some (fileContents f))
                     | None \<Rightarrow> (msg_filePath d, msg_fileContents d))
    \<and> (agentId st = Some a \<and> a \<noteq> [] \<and> file_args d = (Some p, Some c) \<and> write_ok e a p \<longrightarrow>
         handle_frames e (g # cs @ [d]) st =
           (None, st\<lparr>saveFile_calls := saveFile_calls st @ [(Some p, Some c)],
                     written := written st @ [(outputPath e a p, c)],
                     filesMap := AList.update p c (filesMap st)\<rparr>))"
proof -
  have g: "handleWebSocketMessage e g st = (None, st)"
    using assms(1) by (simp add: handleWebSocketMessage_def)
  have pre: "handle_frames e (g # cs) st = (None, st)"
    using g handle_chunks [OF assms(2)] by simp
  have "handle_frames e (g # cs @ [d]) st = handle_frames e [d] st"
    using handle_frames_append_ok [OF pre, of "[d]"] by (simp only: append_Cons)
  then have all: "handle_frames e (g # cs @ [d]) st = handleWebSocketMessage e d st"
    by (simp only: handle_frames_single)
  show ?thesis
    using pre all assms(3)
    by (simp add: handle_file_generated file_generated_calls file_generated_success file_args_def)
qed

theorem file_sequence_saves_once_witness:
  "handle_frames default_env
     ((frame ''file_generating'')\<lparr>msg_filePath := Some ''a.txt''\<rparr>
      # [(frame ''file_chunk_generated'')\<lparr>msg_filePath := Some ''a.txt'', chunk := Some ''he''\<rparr>,
         (frame ''file_chunk_generated'')\<lparr>msg_filePath := Some ''a.txt'', chunk := Some ''ll''\<rparr>]
      @ [(frame ''file_generated'')
           \<lparr>msg_file := Some \<lparr>filePath = ''a.txt'', fileContents = ''hello''\<rparr>\<rparr>])
     (initial_session\<lparr>agentId := Some ''a1''\<rparr>)
   = (None, initial_session\<lparr>agentId := Some ''a1'',
        filesMap := [(''a.txt'', ''hello'')],
        written := [(''output/a1/a.txt'', ''hello'')],
        saveFile_calls := [(Some ''a.txt'', Some ''hello'')]\<rparr>)"
  using file_sequence_saves_once
    [of "(frame ''file_generating'')\<lparr>msg_filePath := Some ''a.txt''\<rparr>"
        "[(frame ''file_chunk_generated'')\<lparr>msg_filePath := Some ''a.txt'', chunk := Some ''he''\<rparr>,
          (frame ''file_chunk_generated'')\<lparr>msg_filePath := Some ''a.txt'', chunk := Some ''ll''\<rparr>]"
        "(frame ''file_generated'')
           \<lparr>msg_file := Some \<lparr>filePath = ''a.txt'', fileContents = ''hello''\<rparr>\<rparr>"
        default_env "initial_session\<lparr>agentId := Some ''a1''\<rparr>" "''a1''" "''a.txt''" "''hello''",
     THEN conjunct2, THEN conjunct2, THEN conjunct2, THEN conjunct2]
  by (simp del: handle_frames.simps append_Cons
      add: frame_def file_args_def write_ok_default outputPath_a_txt initial_session_def)

section \<open>Properties of \<^verbatim>\<open>saveFile\<close>'s path\<close>

lemma split_on_nonempty [simp]: "split_on c xs \<noteq> []"
  by (induction xs) (auto split: list.splits)

lemma split_on_sep_append:
  "split_on c (xs @ c # ys) = split_on c xs @ split_on c ys"
  by (induction xs) (auto split: list.splits)

lemma split_on_segments_free: "s \<in> set (split_on c xs) \<Longrightarrow> c \<notin> set s"
  by (induction xs arbitrary: s) (auto split: list.splits if_splits)

lemma normalizeString_append:
  "normalizeString ab res (X @ Y) = normalizeString ab (normalizeString ab res X) Y"
  by (induction X arbitrary: res) auto

lemma normalizeString_no_dotdot:
  "''..'' \<notin> set Y \<Longrightarrow>
   normalizeString ab res Y = res @ filter (\<lambda>s. s \<noteq> [] \<and> s \<noteq> ''.'') Y"
  by (induction Y arbitrary: res) auto

lemma clean_butlast: "clean N \<Longrightarrow> clean (butlast N)"
  by (auto simp: clean_def dest: in_set_butlastD)

lemma normalizeString_clean:
  "clean res \<Longrightarrow> \<forall>s \<in> set X. CHR ''/'' \<notin> set s \<Longrightarrow> clean (normalizeString ab res X)"
proof (induction X arbitrary: res)
  case Nil
  then show ?case by simp
next
  case (Cons x X)
  have c1: "clean (butlast res)" using Cons.prems(1) by (rule clean_butlast)
  have c2: "clean (res @ [''..''])" using Cons.prems(1) by (auto simp: clean_def)
  have c3: "x \<noteq> [] \<Longrightarrow> x \<noteq> ''.'' \<Longrightarrow> clean (res @ [x])"
    using Cons.prems by (auto simp: clean_def)
  show ?case using Cons.prems(2) Cons.IH [OF c1] Cons.IH [OF c2] Cons.IH [OF Cons.prems(1)] Cons.IH [OF c3]
    by auto
qed

lemma split_on_join_with:
  "N \<noteq> [] \<Longrightarrow> \<forall>s \<in> set N. c \<notin> set s \<Longrightarrow> split_on c (join_with c N) = N"
proof (induction c N rule: join_with.induct)
  case (1 c)
  then show ?case by simp
next
  case (2 c s)
  then show ?case by (induction s) auto
next
  case (3 c s t ss)
  then show ?case by (simp add: split_on_sep_append) (induction s, auto)
qed


lemma join_with_nonempty: "N \<noteq> [] \<Longrightarrow> clean N \<Longrightarrow> join_with c N \<noteq> []"
  by (induction c N rule: join_with.induct) (auto simp: clean_def)

lemma join_with_empty_iff: "clean N \<Longrightarrow> join_with c N = [] \<longleftrightarrow> N = []"
  using join_with_nonempty [of N c] by auto

lemma not_absolute_join_with:
  "N \<noteq> [] \<Longrightarrow> clean N \<Longrightarrow> \<not> is_absolute (join_with (CHR ''/'') N @ x)"
proof -
  assume "N \<noteq> []" and "clean N"
  then obtain s ss where N: "N = s # ss" and s: "s \<noteq> []" "CHR ''/'' \<notin> set s"
    by (cases N) (auto simp: clean_def)
  from s obtain c cs where c: "s = c # cs" "c \<noteq> CHR ''/''" by (cases s) auto
  have "\<exists>r. join_with (CHR ''/'') (s # ss) = s @ r" by (cases ss) auto
  then show ?thesis using N c by (auto simp: is_absolute_def)
qed

lemma filter_clean: "clean N \<Longrightarrow> filter (\<lambda>s. s \<noteq> [] \<and> s \<noteq> ''.'') N = N"
  by (induction N) (auto simp: clean_def)

lemma split_on_trailing: "split_on c (xs @ [c]) = split_on c xs @ [[]]"
  using split_on_sep_append [of c xs "[]"] by simp

lemma segments_render:
  assumes "N \<noteq> []" and "clean N"
  shows "segments ((if a then ''/'' else []) @ join_with (CHR ''/'') N @ (if t then ''/'' else []))
         = N"
proof -
  have sp: "split_on (CHR ''/'') (join_with (CHR ''/'') N) = N"
    using assms by (intro split_on_join_with) (auto simp: clean_def)
  have "split_on (CHR ''/'') (join_with (CHR ''/'') N @ (if t then ''/'' else []))
          = N @ (if t then [[]] else [])"
    using sp by (simp add: split_on_trailing)
  then have "split_on (CHR ''/'')
        ((if a then ''/'' else []) @ join_with (CHR ''/'') N @ (if t then ''/'' else []))
          = (if a then [[]] else []) @ N @ (if t then [[]] else [])"
    by simp
  then show ?thesis using assms(2) by (simp add: segments_def filter_clean)
qed

lemma normalized_clean:
  "clean (normalizeString ab [] (split_on (CHR ''/'') j))"
  by (rule normalizeString_clean) (auto simp: clean_def dest: split_on_segments_free)

lemma path_normalize_unfold:
  assumes "j \<noteq> []"
  shows "path_normalize j =
     (if normalizeString (\<not> is_absolute j) [] (split_on (CHR ''/'') j) = []
      then (if is_absolute j then ''/'' else if last j = CHR ''/'' then ''./'' else ''.'')
      else (if is_absolute j then ''/'' else [])
           @ join_with (CHR ''/'') (normalizeString (\<not> is_absolute j) [] (split_on (CHR ''/'') j))
           @ (if last j = CHR ''/'' then ''/'' else []))"
proof -
  have abs: "(hd j = CHR ''/'') = is_absolute j"
    using assms by (cases j) (auto simp: is_absolute_def)
  have "join_with (CHR ''/'') (normalizeString (\<not> is_absolute j) [] (split_on (CHR ''/'') j)) = []
        \<longleftrightarrow> normalizeString (\<not> is_absolute j) [] (split_on (CHR ''/'') j) = []"
    by (rule join_with_empty_iff) (rule normalized_clean)
  then show ?thesis using assms
    unfolding path_normalize_def Let_def abs by simp
qed

lemma segments_path_normalize:
  assumes "j \<noteq> []"
  shows "segments (path_normalize j)
         = normalizeString (\<not> is_absolute j) [] (split_on (CHR ''/'') j)"
proof (cases "normalizeString (\<not> is_absolute j) [] (split_on (CHR ''/'') j) = []")
  case True
  then show ?thesis
    unfolding path_normalize_unfold [OF assms] by (simp add: segments_def)
next
  case False
  show ?thesis
    unfolding path_normalize_unfold [OF assms]
    using False segments_render [OF False normalized_clean] by simp
qed

lemma is_absolute_path_normalize:
  assumes "j \<noteq> []"
  shows "is_absolute (path_normalize j) = is_absolute j"
proof (cases "normalizeString (\<not> is_absolute j) [] (split_on (CHR ''/'') j) = []")
  case True
  then show ?thesis
    unfolding path_normalize_unfold [OF assms] by (simp add: is_absolute_def)
next
  case False
  show ?thesis
  proof (cases "is_absolute j")
    case True
    with False show ?thesis
      unfolding path_normalize_unfold [OF assms] by (simp add: is_absolute_def)
  next
    case na: False
    with False not_absolute_join_with [OF False normalized_clean] show ?thesis
      unfolding path_normalize_unfold [OF assms] by simp
  qed
qed

lemma joined_confined:
  assumes "r \<noteq> []" and "''..'' \<notin> set (split_on (CHR ''/'') p)"
  shows "confined (path_normalize r) (path_normalize (r @ CHR ''/'' # p))"
proof -
  let ?j = "r @ CHR ''/'' # p"
  have abs: "is_absolute ?j = is_absolute r"
    using assms(1) by (cases r) (auto simp: is_absolute_def)
  have "segments (path_normalize ?j)
      = normalizeString (\<not> is_absolute r) [] (split_on (CHR ''/'') r @ split_on (CHR ''/'') p)"
    using segments_path_normalize [of ?j] by (simp add: abs split_on_sep_append)
  also have "\<dots> = segments (path_normalize r)
                  @ filter (\<lambda>s. s \<noteq> [] \<and> s \<noteq> ''.'') (split_on (CHR ''/'') p)"
    using assms by (simp add: normalizeString_append normalizeString_no_dotdot
        segments_path_normalize)
  finally have seg: "segments (path_normalize ?j) = segments (path_normalize r)
                  @ filter (\<lambda>s. s \<noteq> [] \<and> s \<noteq> ''.'') (split_on (CHR ''/'') p)" .
  have "is_absolute (path_normalize ?j) = is_absolute (path_normalize r)"
    using assms(1) by (simp add: is_absolute_path_normalize abs)
  then show ?thesis using seg assms(2) by (simp add: confined_def)
qed

lemma outputPath_confined:
  assumes "OUTPUT_DIR e \<noteq> []" and "a \<noteq> []" and "''..'' \<notin> set (split_on (CHR ''/'') p)"
  shows "confined (path_join [OUTPUT_DIR e, a]) (outputPath e a p)"
proof (cases "p = []")
  case True
  then show ?thesis using assms(1,2)
    by (simp add: outputPath_def path_join_def confined_def)
next
  case False
  then show ?thesis
    using assms joined_confined [of "OUTPUT_DIR e @ CHR ''/'' # a" p]
    by (simp add: outputPath_def path_join_def)
qed

lemma outputPath_app_tsx:
  "outputPath default_env ''a1'' ''src/App.tsx'' = ''output/a1/src/App.tsx''"
  by code_simp

lemma outputPath_escape: "outputPath default_env ''a1'' ''../../etc/passwd'' = ''etc/passwd''"
  by code_simp

lemma session_root_default: "path_join [OUTPUT_DIR default_env, ''a1''] = ''output/a1''"
  by code_simp

text \<open>
  C9, as the code has it. \<^verbatim>\<open>saveFile\<close> writes at \<^verbatim>\<open>join(OUTPUT_DIR, agentId, filePath)\<close>
  and checks nothing. When no segment of the relative path is \<^verbatim>\<open>..\<close> (the session id
  being set and the write succeeding), the file written lies under the session's root
  \<^verbatim>\<open>join(OUTPUT_DIR, agentId)\<close>.
\<close>

theorem saveFile_confined_without_dotdot:
  assumes "agentId st = Some a" and "a \<noteq> []" and "OUTPUT_DIR e \<noteq> []"
    and "''..'' \<notin> set (split_on (CHR ''/'') p)" and "write_ok e a p"
  shows "saveFile e (Some p) (Some c) st =
           (None, st\<lparr>saveFile_calls := saveFile_calls st @ [(Some p, Some c)],
                     written := written st @ [(outputPath e a p, c)],
                     filesMap := AList.update p c (filesMap st)\<rparr>)
         \<and> confined (path_join [OUTPUT_DIR e, a]) (outputPath e a p)"
  using assms by (simp add: saveFile_success outputPath_confined)

theorem saveFile_confined_without_dotdot_witness:
  "written (snd (saveFile default_env (Some ''src/App.tsx'') (Some ''x'')
      (initial_session\<lparr>agentId := Some ''a1''\<rparr>)))
     = [(''output/a1/src/App.tsx'', ''x'')]
   \<and> confined ''output/a1'' ''output/a1/src/App.tsx''"
  using saveFile_confined_without_dotdot
    [of "initial_session\<lparr>agentId := Some ''a1''\<rparr>" "''a1''" default_env "''src/App.tsx''" "''x''"]
  by (simp add: write_ok_default outputPath_app_tsx session_root_default initial_session_def)
    (simp add: default_env_def)

text \<open>
  The sentence of the specification does not hold of the code: a relative path with \<^verbatim>\<open>..\<close> segments is neither rejected
  nor confined. With the default output directory and session \<^verbatim>\<open>a1\<close>, the path
  \<^verbatim>\<open>../../etc/passwd\<close> is written at \<^verbatim>\<open>etc/passwd\<close>, outside \<^verbatim>\<open>output/a1\<close>.
\<close>

theorem saveFile_follows_dotdot:
  "written (snd (saveFile default_env (Some ''../../etc/passwd'') (Some ''x'')
      (initial_session\<lparr>agentId := Some ''a1''\<rparr>)))
     = [(''etc/passwd'', ''x'')]
   \<and> fst (saveFile default_env (Some ''../../etc/passwd'') (Some ''x'')
      (initial_session\<lparr>agentId := Some ''a1''\<rparr>)) = None
   \<and> path_join [OUTPUT_DIR default_env, ''a1''] = ''output/a1''
   \<and> \<not> confined ''output/a1'' ''etc/passwd''"
proof -
  have "\<not> confined ''output/a1'' ''etc/passwd''" by code_simp
  then show ?thesis
    by (simp add: saveFile_success [of _ "''a1''"] write_ok_default outputPath_escape
        session_root_default initial_session_def)
qed

section \<open>Properties of the creation-stream reader\<close>

lemma split_on_append:
  "split_on c (xs @ ys) = butlast (split_on c xs) @ split_on c (last (split_on c xs) @ ys)"
  by (induction xs) (auto split: list.splits)


lemma split_on_no_sep: "c \<notin> set xs \<Longrightarrow> split_on c xs = [xs]"
  by (induction xs) auto

lemma last_split_on_no_sep: "c \<notin> set (last (split_on c xs))"
  by (induction xs) (auto split: list.splits)

lemma buffer_process_line [simp]: "buffer (process_line J l r) = buffer r"
  by (simp add: process_line_def split: option.splits)

lemma buffer_process_lines [simp]: "buffer (process_lines J ls r) = buffer r"
  by (induction ls arbitrary: r) auto

lemma process_line_buffer_update:
  "process_line J l (r\<lparr>buffer := b\<rparr>) = (process_line J l r)\<lparr>buffer := b\<rparr>"
  by (simp add: process_line_def split: option.splits)

lemma process_lines_buffer_update:
  "process_lines J ls (r\<lparr>buffer := b\<rparr>) = (process_lines J ls r)\<lparr>buffer := b\<rparr>"
  by (induction ls arbitrary: r) (auto simp: process_line_buffer_update)

lemma process_lines_append:
  "''terminate'' \<notin> set xs \<Longrightarrow>
   process_lines J (xs @ ys) r = process_lines J ys (process_lines J xs r)"
  by (induction xs arbitrary: r) auto

lemma read_loop_append:
  "read_loop J (xs @ ys) r = read_loop J ys (read_loop J xs r)"
  by (induction xs arbitrary: r) (auto simp: Let_def)

lemma buffer_read_loop:
  "CHR 0x0A \<notin> set (buffer r) \<Longrightarrow>
   buffer (read_loop J reads r) = last (split_on (CHR 0x0A) (buffer r @ concat reads))"
proof (induction reads arbitrary: r)
  case Nil
  then show ?case by (simp add: split_on_no_sep)
next
  case (Cons v reads)
  let ?r1 = "process_lines J (butlast (split_on (CHR 0x0A) (buffer r @ v)))
               (r\<lparr>buffer := last (split_on (CHR 0x0A) (buffer r @ v))\<rparr>)"
  have b: "buffer ?r1 = last (split_on (CHR 0x0A) (buffer r @ v))" by simp
  have "buffer (read_loop J reads ?r1)
          = last (split_on (CHR 0x0A) (buffer ?r1 @ concat reads))"
    by (rule Cons.IH) (simp add: last_split_on_no_sep)
  also have "\<dots> = last (split_on (CHR 0x0A) ((buffer r @ v) @ concat reads))"
    unfolding b by (subst (2) split_on_append) simp
  finally show ?case by (simp add: Let_def)
qed

lemma read_loop_sentinel_last:
  "CHR 0x0A \<notin> set (buffer r) \<Longrightarrow>
   ''terminate'' \<notin> set (butlast (butlast (split_on (CHR 0x0A) (buffer r @ concat reads)))) \<Longrightarrow>
   read_loop J reads r =
     (process_lines J (butlast (split_on (CHR 0x0A) (buffer r @ concat reads))) r)
       \<lparr>buffer := last (split_on (CHR 0x0A) (buffer r @ concat reads))\<rparr>"
proof (induction reads arbitrary: r)
  case Nil
  then show ?case by (simp add: split_on_no_sep)
next
  case (Cons v reads)
  let ?S = "split_on (CHR 0x0A) (buffer r @ v)"
  let ?r1 = "process_lines J (butlast ?S) (r\<lparr>buffer := last ?S\<rparr>)"
  let ?T = "split_on (CHR 0x0A) (last ?S @ concat reads)"
  have b: "buffer ?r1 = last ?S" by simp
  have all: "split_on (CHR 0x0A) (buffer r @ concat (v # reads)) = butlast ?S @ ?T"
    using split_on_append [of "CHR 0x0A" "buffer r @ v" "concat reads"] by simp
  have bl: "butlast (butlast ?S @ ?T) = butlast ?S @ butlast ?T"
    by (simp add: butlast_append)
  have la: "last (butlast ?S @ ?T) = last ?T" by simp
  have nt2: "''terminate'' \<notin> set (butlast (butlast ?T))"
    using Cons.prems(2) unfolding all bl
    by (cases "butlast ?T = []") (auto simp: butlast_append)
  have step: "read_loop J reads ?r1 =
     (process_lines J (butlast (split_on (CHR 0x0A) (buffer ?r1 @ concat reads))) ?r1)
       \<lparr>buffer := last (split_on (CHR 0x0A) (buffer ?r1 @ concat reads))\<rparr>"
    by (rule Cons.IH) (simp_all add: last_split_on_no_sep nt2)
  have join: "process_lines J (butlast ?T) (process_lines J (butlast ?S) r)
                = process_lines J (butlast ?S @ butlast ?T) r"
  proof (cases "butlast ?T = []")
    case True
    then show ?thesis by simp
  next
    case False
    then have "''terminate'' \<notin> set (butlast ?S)"
      using Cons.prems(2) unfolding all bl by (auto simp: butlast_append)
    then show ?thesis by (simp add: process_lines_append)
  qed
  from step have "read_loop J (v # reads) r =
     (process_lines J (butlast ?T) ?r1)\<lparr>buffer := last ?T\<rparr>"
    by (simp add: Let_def)
  also have "\<dots> = (process_lines J (butlast ?S @ butlast ?T) r)\<lparr>buffer := last ?T\<rparr>"
    by (simp add: join process_lines_buffer_update)
  finally show ?case unfolding all bl la .
qed

text \<open>
  Where the sentinel, if there is one, is the last line of the stream, the result of the
  reader depends on the text received only, not on where the reads cut it.
\<close>

lemma createAgent_split_invariant:
  assumes "concat reads = concat reads'"
    and "''terminate'' \<notin> set (butlast (butlast (split_on (CHR 0x0A) (concat reads))))"
  shows "createAgent J reads st = createAgent J reads' st"
  using assms by (simp add: createAgent_def read_loop_sentinel_last)

text \<open>
  C1. Where the reads are cut changes the frames processed when a line follows the
  sentinel: delivered in the same read as the sentinel the line is skipped (the
  \<^verbatim>\<open>break\<close> leaves only the inner loop), delivered in the next read it is processed,
  because the outer loop goes on reading.
\<close>

theorem sentinel_then_line_depends_on_split:
  \<open>frames (createAgent sample_parse [''terminate\<newline>{"chunk":"hello"}\<newline>''] initial_session)
     = [Terminate]
   \<and> frames (createAgent sample_parse [''terminate\<newline>'', ''{"chunk":"hello"}\<newline>'']
        initial_session)
     = [Terminate, Blueprint_chunk ''hello'']\<close>
  by code_simp

text \<open>
  C2, as the code has it. An unterminated partial line is kept in the carry-over buffer
  across reads: after any reads the buffer is the text that follows the last newline
  received, and a read is processed together with the next read exactly as if the two had
  arrived as one, provided none of the lines that the first read completes is the sentinel
  (so in particular whenever the read holds no newline). When the stream ends the buffer is
  not flushed: text without a newline at the end of the final read, or as a final read of
  its own, only extends the buffer, and no frame comes of it.
\<close>

theorem carry_over_kept_not_flushed:
  "buffer (createAgent J reads st) = last (split_on (CHR 0x0A) (concat reads))
   \<and> (''terminate'' \<notin> set (butlast (split_on (CHR 0x0A) (buffer (createAgent J reads st) @ a))) \<longrightarrow>
        createAgent J (reads @ a # v # rest) st = createAgent J (reads @ (a @ v) # rest) st)
   \<and> (CHR 0x0A \<notin> set t \<longrightarrow>
        createAgent J (reads @ [t]) st
          = (createAgent J reads st)\<lparr>buffer := buffer (createAgent J reads st) @ t\<rparr>
        \<and> frames (createAgent J (reads @ [t]) st) = frames (createAgent J reads st)
        \<and> createAgent J (reads @ [x @ t]) st
          = (createAgent J (reads @ [x]) st)
              \<lparr>buffer := buffer (createAgent J (reads @ [x]) st) @ t\<rparr>
        \<and> frames (createAgent J (reads @ [x @ t]) st) = frames (createAgent J (reads @ [x]) st))"
proof -
  let ?init = "\<lparr>agentId = agentId st, websocketUrl = websocketUrl st, filesMap = filesMap st,
        lastDeploymentUrl = lastDeploymentUrl st, written = written st,
        saveFile_calls = saveFile_calls st, buffer = [], frames = []\<rparr>"
  let ?r = "read_loop J reads ?init"
  have b: "buffer ?r = last (split_on (CHR 0x0A) (concat reads))"
    using buffer_read_loop [of ?init J reads] by simp
  then have free: "CHR 0x0A \<notin> set (buffer ?r)" by (simp add: last_split_on_no_sep)
  have one: "read_loop J [y] ?r = ?r\<lparr>buffer := buffer ?r @ y\<rparr>" if "CHR 0x0A \<notin> set y" for y
    using that free by (simp add: split_on_no_sep)
  have two: "read_loop J (a # v # rest) ?r = read_loop J ((a @ v) # rest) ?r"
    if nt: "''terminate'' \<notin> set (butlast (split_on (CHR 0x0A) (buffer ?r @ a)))"
  proof -
    let ?S = "split_on (CHR 0x0A) (buffer ?r @ a)"
    let ?T = "split_on (CHR 0x0A) (last ?S @ v)"
    have all: "split_on (CHR 0x0A) (buffer ?r @ a @ v) = butlast ?S @ ?T"
      using split_on_append [of "CHR 0x0A" "buffer ?r @ a" v] by simp
    have bl: "butlast (butlast ?S @ ?T) = butlast ?S @ butlast ?T"
      by (simp add: butlast_append)
    have la: "last (butlast ?S @ ?T) = last ?T" by simp
    have "read_loop J (a # v # rest) ?r
        = read_loop J rest
            ((process_lines J (butlast ?T) (process_lines J (butlast ?S) ?r))\<lparr>buffer := last ?T\<rparr>)"
      by (simp add: Let_def process_lines_buffer_update)
    also have "\<dots> = read_loop J rest
            ((process_lines J (butlast ?S @ butlast ?T) ?r)\<lparr>buffer := last ?T\<rparr>)"
      by (simp add: process_lines_append [OF nt])
    also have "\<dots> = read_loop J ((a @ v) # rest) ?r"
      by (simp add: Let_def all bl la process_lines_buffer_update)
    finally show ?thesis .
  qed
  have three: "read_loop J [x @ t] ?r = (read_loop J [x] ?r)\<lparr>buffer := buffer (read_loop J [x] ?r) @ t\<rparr>"
    if nl: "CHR 0x0A \<notin> set t"
  proof -
    let ?S = "split_on (CHR 0x0A) (buffer ?r @ x)"
    have "CHR 0x0A \<notin> set (last ?S @ t)" using nl by (simp add: last_split_on_no_sep)
    then have T: "split_on (CHR 0x0A) (last ?S @ t) = [last ?S @ t]" by (rule split_on_no_sep)
    have all: "split_on (CHR 0x0A) (buffer ?r @ x @ t) = butlast ?S @ [last ?S @ t]"
      using split_on_append [of "CHR 0x0A" "buffer ?r @ x" t] T by simp
    show ?thesis by (simp add: Let_def all process_lines_buffer_update)
  qed
  show ?thesis
    using b one two three by (simp add: createAgent_def read_loop_append)
qed

theorem carry_over_kept_not_flushed_witness:
  \<open>createAgent sample_parse
       ([] @ ''{"agentId":"a1","websocketUrl":"ws://x","template":{"name":"t","files":[]}}\<newline>{"chu''
           # ''nk":"hello"}\<newline>'' # [])
       initial_session
     = createAgent sample_parse
         ([] @ (''{"agentId":"a1","websocketUrl":"ws://x","template":{"name":"t","files":[]}}\<newline>{"chu''
                 @ ''nk":"hello"}\<newline>'') # [])
         initial_session
   \<and> frames (createAgent sample_parse
         ([] @ (''{"agentId":"a1","websocketUrl":"ws://x","template":{"name":"t","files":[]}}\<newline>{"chu''
                 @ ''nk":"hello"}\<newline>'') # [])
         initial_session)
     = [Agent_info ''a1'' ''ws://x'', Blueprint_chunk ''hello'']
   \<and> frames (createAgent sample_parse ([] @ [''{"chunk":"hello"}'']) initial_session)
     = frames (createAgent sample_parse [] initial_session)
   \<and> frames (createAgent sample_parse
         ([] @ [''{"agentId":"a1","websocketUrl":"ws://x","template":{"name":"t","files":[]}}\<newline>''
                 @ ''{"chunk":"hello"}''])
         initial_session)
     = frames (createAgent sample_parse
         ([] @ [''{"agentId":"a1","websocketUrl":"ws://x","template":{"name":"t","files":[]}}\<newline>''])
         initial_session)
   \<and> frames (createAgent sample_parse
         ([] @ [''{"agentId":"a1","websocketUrl":"ws://x","template":{"name":"t","files":[]}}\<newline>''])
         initial_session)
     = [Agent_info ''a1'' ''ws://x'']\<close>
proof -
  note t = carry_over_kept_not_flushed
      [of sample_parse "[]" initial_session
          \<open>''{"agentId":"a1","websocketUrl":"ws://x","template":{"name":"t","files":[]}}\<newline>{"chu''\<close>
          \<open>''nk":"hello"}\<newline>''\<close> "[]" \<open>''{"chunk":"hello"}''\<close>
          \<open>''{"agentId":"a1","websocketUrl":"ws://x","template":{"name":"t","files":[]}}\<newline>''\<close>]
  have h1: \<open>''terminate'' \<notin> set (butlast (split_on (CHR 0x0A)
      (buffer (createAgent sample_parse [] initial_session)
       @ ''{"agentId":"a1","websocketUrl":"ws://x","template":{"name":"t","files":[]}}\<newline>{"chu'')))\<close>
    by code_simp
  have h2: \<open>CHR 0x0A \<notin> set ''{"chunk":"hello"}''\<close> by simp
  have e1: \<open>frames (createAgent sample_parse
         ([] @ (''{"agentId":"a1","websocketUrl":"ws://x","template":{"name":"t","files":[]}}\<newline>{"chu''
                 @ ''nk":"hello"}\<newline>'') # [])
         initial_session)
     = [Agent_info ''a1'' ''ws://x'', Blueprint_chunk ''hello'']\<close>
    by code_simp
  have e2: \<open>frames (createAgent sample_parse
         ([] @ [''{"agentId":"a1","websocketUrl":"ws://x","template":{"name":"t","files":[]}}\<newline>''])
         initial_session)
     = [Agent_info ''a1'' ''ws://x'']\<close>
    by code_simp
  from t h1 have c2: \<open>createAgent sample_parse
       ([] @ ''{"agentId":"a1","websocketUrl":"ws://x","template":{"name":"t","files":[]}}\<newline>{"chu''
           # ''nk":"hello"}\<newline>'' # [])
       initial_session
     = createAgent sample_parse
         ([] @ (''{"agentId":"a1","websocketUrl":"ws://x","template":{"name":"t","files":[]}}\<newline>{"chu''
                 @ ''nk":"hello"}\<newline>'') # [])
         initial_session\<close>
    by blast
  from t h2 have c3: \<open>frames (createAgent sample_parse ([] @ [''{"chunk":"hello"}'']) initial_session)
     = frames (createAgent sample_parse [] initial_session)\<close>
    by blast
  from t h2 have c4: \<open>frames (createAgent sample_parse
         ([] @ [''{"agentId":"a1","websocketUrl":"ws://x","template":{"name":"t","files":[]}}\<newline>''
                 @ ''{"chunk":"hello"}''])
         initial_session)
     = frames (createAgent sample_parse
         ([] @ [''{"agentId":"a1","websocketUrl":"ws://x","template":{"name":"t","files":[]}}\<newline>''])
         initial_session)\<close>
    by blast
  show ?thesis
    by (intro conjI) (rule c2, rule e1, rule c3, rule c4, rule e2)
qed

text \<open>Without the condition the two ways differ: the first read completes the sentinel.\<close>

lemma merged_reads_differ_after_sentinel:
  \<open>frames (createAgent sample_parse [''terminate\<newline>{"chu'', ''nk":"hello"}\<newline>''] initial_session)
     = [Terminate, Blueprint_chunk ''hello'']
   \<and> frames (createAgent sample_parse [''terminate\<newline>{"chu'' @ ''nk":"hello"}\<newline>''] initial_session)
     = [Terminate]\<close>
  by code_simp

text \<open>
  The sentence of the specification does not hold of the code: a final line without a
  newline is dropped. The chunk line yields its frame when a newline ends it, and no frame
  when the stream ends right after it; the text is still in the buffer when the loop ends.
\<close>

theorem unterminated_final_line_dropped:
  \<open>frames (createAgent sample_parse [''{"chunk":"hello"}\<newline>''] initial_session)
     = [Blueprint_chunk ''hello'']
   \<and> frames (createAgent sample_parse [''{"chunk":"hello"}''] initial_session) = []
   \<and> buffer (createAgent sample_parse [''{"chunk":"hello"}''] initial_session)
     = ''{"chunk":"hello"}''\<close>
  by code_simp

end
